theory Spec2Isabelle
  imports Main "HOL-Library.AList"
begin

section \<open>Python values, dictionaries and exceptions\<close>

text \<open>
  The four modules under \<^verbatim>\<open>plugins/modules\<close> work on \<^verbatim>\<open>module.params\<close>, a Python
  dictionary from option names to values, where an option the task did not supply holds
  \<^verbatim>\<open>None\<close>. A dictionary is an association list (keys are unique in every dictionary
  the modules build); \<^verbatim>\<open>None\<close> is the value \<open>PNone\<close>.
\<close>

datatype pyval = PNone | PStr string | PInt int | PBool bool | PDict "(string \<times> pyval) list"

type_synonym dict = "(string \<times> pyval) list"

datatype pyexc =
    KeyError string
  | ImportError string
  | ScalewayException int
  | OtherException string

text \<open>\<^verbatim>\<open>d[k]\<close>: raises \<^verbatim>\<open>KeyError\<close> when the key is missing.\<close>

definition dict_index :: "dict \<Rightarrow> string \<Rightarrow> pyexc + pyval" where
  "dict_index d k = (case map_of d k of None \<Rightarrow> Inl (KeyError k) | Some v \<Rightarrow> Inr v)"

text \<open>\<^verbatim>\<open>d.pop(k, default)\<close>: the value and the dictionary without the key.\<close>

definition dict_pop :: "dict \<Rightarrow> string \<Rightarrow> pyval \<Rightarrow> pyval \<times> dict" where
  "dict_pop d k dflt =
     (case map_of d k of None \<Rightarrow> (dflt, d) | Some v \<Rightarrow> (v, AList.delete k d))"

text \<open>\<^verbatim>\<open>d.pop(k)\<close> without a default: raises \<^verbatim>\<open>KeyError\<close> when the key is missing.\<close>

definition dict_pop_strict :: "dict \<Rightarrow> string \<Rightarrow> pyexc + (pyval \<times> dict)" where
  "dict_pop_strict d k =
     (case map_of d k of None \<Rightarrow> Inl (KeyError k) | Some v \<Rightarrow> Inr (v, AList.delete k d))"

text \<open>\<^verbatim>\<open>{key: value for key, value in d.items() if value is not None}\<close>\<close>

definition not_none :: "dict \<Rightarrow> dict" where
  "not_none d = filter (\<lambda>(key, value). value \<noteq> PNone) d"

section \<open>The provider SDK and the outcome of a module run\<close>

text \<open>
  A resource object of the SDK: the modules read \<^verbatim>\<open>resource.id\<close> and
  \<^verbatim>\<open>resource.name\<close>, and hand the object (or its \<^verbatim>\<open>__dict__\<close>) to
  \<^verbatim>\<open>exit_json\<close> as \<^verbatim>\<open>data\<close>.
\<close>

record resource =
  rid :: string
  rname :: string
  rfields :: dict

text \<open>
  The SDK is an external collaborator: each of its methods is a function of the keyword
  arguments and of the provider's state \<open>'s\<close>, which returns a result or raises and
  leaves a new provider state. Nothing is assumed about these functions.
\<close>

record 's api =
  api_get :: "dict \<Rightarrow> 's \<Rightarrow> (pyexc + resource) \<times> 's"
  api_list_all :: "dict \<Rightarrow> 's \<Rightarrow> (pyexc + resource list) \<times> 's"
  api_create :: "dict \<Rightarrow> 's \<Rightarrow> (pyexc + resource) \<times> 's"
  api_delete :: "dict \<Rightarrow> 's \<Rightarrow> (pyexc + unit) \<times> 's"
  api_wait_for :: "dict \<Rightarrow> 's \<Rightarrow> (pyexc + resource) \<times> 's"

datatype op = Get | ListAll | Create | Delete | WaitFor

record event =
  ev_op :: op
  ev_args :: dict
  ev_raised :: "pyexc option"

record 's world =
  provider :: 's
  trace :: "event list"

definition raised_of :: "pyexc + 'a \<Rightarrow> pyexc option" where
  "raised_of r = (case r of Inl e \<Rightarrow> Some e | Inr _ \<Rightarrow> None)"

text \<open>One SDK call: the provider moves on and the call is appended to the trace.\<close>

definition call ::
  "op \<Rightarrow> (dict \<Rightarrow> 's \<Rightarrow> (pyexc + 'a) \<times> 's) \<Rightarrow> dict \<Rightarrow> 's world \<Rightarrow> (pyexc + 'a) \<times> 's world" where
  "call opn f kwargs w =
     (case f kwargs (provider w) of
        (r, s') \<Rightarrow>
          (r, \<lparr>provider = s',
               trace = trace w @ [\<lparr>ev_op = opn, ev_args = kwargs, ev_raised = raised_of r\<rparr>]\<rparr>))"

text \<open>
  How a run ends: \<^verbatim>\<open>module.exit_json(changed=.., data=.., msg=..)\<close> with the keyword
  arguments it was given, \<^verbatim>\<open>module.fail_json(msg=..)\<close>, an exception nobody catches,
  or a plain return.
\<close>

datatype outcome =
    ExitJson "bool option" "resource option" "string option"
  | FailJson string
  | Raised pyexc
  | Returned

fun changed_of :: "outcome \<Rightarrow> bool option" where
  "changed_of (ExitJson c d m) = c"
| "changed_of _ = None"

fun data_of :: "outcome \<Rightarrow> resource option" where
  "data_of (ExitJson c d m) = d"
| "data_of _ = None"

fun msg_of :: "outcome \<Rightarrow> string option" where
  "msg_of (ExitJson c d m) = m"
| "msg_of (FailJson m) = Some m"
| "msg_of _ = None"

record ansible_module =
  params :: dict
  check_mode :: bool

definition mutating :: "event \<Rightarrow> bool" where
  "mutating ev = (ev_op ev = Create \<or> ev_op ev = Delete)"

section \<open>scaleway\_vpcgw\_pat\_rule\<close>

definition vpcgw_pat_rule_create ::
  "'s api \<Rightarrow> ansible_module \<Rightarrow> 's world \<Rightarrow> outcome \<times> 's world" where
  "vpcgw_pat_rule_create api module w =
     (case dict_pop (params module) ''id'' PNone of
        (id', params') \<Rightarrow>
          if id' \<noteq> PNone then
            (case call Get (api_get api) [(''pat_rule_id'', id')] w of
               (Inl e, w1) \<Rightarrow> (Raised e, w1)
             | (Inr resource, w1) \<Rightarrow>
                 if check_mode module then (ExitJson (Some False) None None, w1)
                 else (ExitJson (Some False) (Some resource) None, w1))
          else if check_mode module then (ExitJson (Some True) None None, w)
          else
            (case call Create (api_create api) params' w of
               (Inl e, w1) \<Rightarrow> (Raised e, w1)
             | (Inr resource, w1) \<Rightarrow> (ExitJson (Some True) (Some resource) None, w1)))"

definition vpcgw_pat_rule_delete ::
  "'s api \<Rightarrow> ansible_module \<Rightarrow> 's world \<Rightarrow> outcome \<times> 's world" where
  "vpcgw_pat_rule_delete api module w =
     (case dict_index (params module) ''id'' of
        Inl e \<Rightarrow> (Raised e, w)
      | Inr id' \<Rightarrow>
          if id' \<noteq> PNone then
            (case call Get (api_get api) [(''pat_rule_id'', id')] w of
               (Inl e, w1) \<Rightarrow> (Raised e, w1)
             | (Inr resource, w1) \<Rightarrow>
                 if check_mode module then (ExitJson (Some True) None None, w1)
                 else
                   (case call Delete (api_delete api) [(''pat_rule_id'', PStr (rid resource))] w1 of
                      (Inl e, w2) \<Rightarrow> (Raised e, w2)
                    | (Inr u, w2) \<Rightarrow>
                        (ExitJson (Some True) None
                           (Some (''vpcgw's pat_rule '' @ rid resource @ '' deleted'')), w2)))
          else (FailJson ''id is required'', w))"

section \<open>scaleway\_iam\_application\<close>

definition iam_application_create ::
  "'s api \<Rightarrow> ansible_module \<Rightarrow> 's world \<Rightarrow> outcome \<times> 's world" where
  "iam_application_create api module w =
     (case dict_pop (params module) ''id'' PNone of
        (id', params') \<Rightarrow>
          if id' \<noteq> PNone then
            (case call Get (api_get api) [(''application_id'', id')] w of
               (Inl e, w1) \<Rightarrow> (Raised e, w1)
             | (Inr resource, w1) \<Rightarrow>
                 if check_mode module then (ExitJson (Some False) None None, w1)
                 else (ExitJson (Some False) (Some resource) None, w1))
          else if check_mode module then (ExitJson (Some True) None None, w)
          else
            (case call Create (api_create api) params' w of
               (Inl e, w1) \<Rightarrow> (Raised e, w1)
             | (Inr resource, w1) \<Rightarrow> (ExitJson (Some True) (Some resource) None, w1)))"

text \<open>The value of \<^verbatim>\<open>name\<close> is read (a missing key raises) and not used before the message.\<close>

definition iam_application_delete ::
  "'s api \<Rightarrow> ansible_module \<Rightarrow> 's world \<Rightarrow> outcome \<times> 's world" where
  "iam_application_delete api module w =
     (case dict_index (params module) ''id'' of
        Inl e \<Rightarrow> (Raised e, w)
      | Inr id' \<Rightarrow>
          (case dict_index (params module) ''name'' of
             Inl e \<Rightarrow> (Raised e, w)
           | Inr name \<Rightarrow>
               if id' \<noteq> PNone then
                 (case call Get (api_get api) [(''application_id'', id')] w of
                    (Inl e, w1) \<Rightarrow> (Raised e, w1)
                  | (Inr resource, w1) \<Rightarrow>
                      if check_mode module then (ExitJson (Some True) None None, w1)
                      else
                        (case call Delete (api_delete api)
                                [(''application_id'', PStr (rid resource))] w1 of
                           (Inl e, w2) \<Rightarrow> (Raised e, w2)
                         | (Inr u, w2) \<Rightarrow>
                             (ExitJson (Some True) None
                                (Some (''iam's application '' @ rname resource @ '' ('' @
                                       rid resource @ '') deleted'')), w2)))
               else (FailJson ''id is required'', w)))"

section \<open>scaleway\_function\_domain\<close>

text \<open>
  \<^verbatim>\<open>module.params\<close> is not written between the uses of \<^verbatim>\<open>module.params["region"]\<close>
  in one function, so the lookup is made where the source makes it first and its value is
  used again at the later calls.
\<close>

definition function_domain_create ::
  "'s api \<Rightarrow> ansible_module \<Rightarrow> 's world \<Rightarrow> outcome \<times> 's world" where
  "function_domain_create api module w =
     (case dict_pop (params module) ''id'' PNone of
        (id', params') \<Rightarrow>
          if id' \<noteq> PNone then
            (case call Get (api_get api) [(''domain_id'', id')] w of
               (Inl e, w1) \<Rightarrow> (Raised e, w1)
             | (Inr resource, w1) \<Rightarrow>
                 if check_mode module then (ExitJson (Some False) None None, w1)
                 else (ExitJson (Some False) (Some resource) None, w1))
          else if check_mode module then (ExitJson (Some True) None None, w)
          else
            (case call Create (api_create api) (not_none params') w of
               (Inl e, w1) \<Rightarrow> (Raised e, w1)
             | (Inr resource, w1) \<Rightarrow>
                 (case dict_index params' ''region'' of
                    Inl e \<Rightarrow> (Raised e, w1)
                  | Inr region \<Rightarrow>
                      (case call WaitFor (api_wait_for api)
                              [(''domain_id'', PStr (rid resource)), (''region'', region)] w1 of
                         (Inl e, w2) \<Rightarrow> (Raised e, w2)
                       | (Inr resource', w2) \<Rightarrow>
                           (ExitJson (Some True) (Some resource') None, w2)))))"

text \<open>
  The handler around \<^verbatim>\<open>wait_for_domain\<close> catches \<^verbatim>\<open>ScalewayException\<close> only and
  raises it again unless its status code is 404.
\<close>

fun swallowed :: "pyexc \<Rightarrow> bool" where
  "swallowed (ScalewayException status_code) = (status_code = 404)"
| "swallowed _ = False"

definition function_domain_delete ::
  "'s api \<Rightarrow> ansible_module \<Rightarrow> 's world \<Rightarrow> outcome \<times> 's world" where
  "function_domain_delete api module w =
     (case dict_index (params module) ''id'' of
        Inl e \<Rightarrow> (Raised e, w)
      | Inr id' \<Rightarrow>
          if id' \<noteq> PNone then
            (case dict_index (params module) ''region'' of
               Inl e \<Rightarrow> (Raised e, w)
             | Inr region \<Rightarrow>
                 (case call Get (api_get api) [(''domain_id'', id'), (''region'', region)] w of
                    (Inl e, w1) \<Rightarrow> (Raised e, w1)
                  | (Inr resource, w1) \<Rightarrow>
                      if check_mode module then (ExitJson (Some True) None None, w1)
                      else
                        (case call Delete (api_delete api)
                                [(''domain_id'', PStr (rid resource)), (''region'', region)] w1 of
                           (Inl e, w2) \<Rightarrow> (Raised e, w2)
                         | (Inr u, w2) \<Rightarrow>
                             (case call WaitFor (api_wait_for api)
                                     [(''domain_id'', PStr (rid resource)), (''region'', region)] w2 of
                                (r, w3) \<Rightarrow>
                                  (case r of
                                     Inl e \<Rightarrow>
                                       if swallowed e then
                                         (ExitJson (Some True) None
                                            (Some (''function's domain '' @ rid resource @
                                                   '' deleted'')), w3)
                                       else (Raised e, w3)
                                   | Inr resource' \<Rightarrow>
                                       (ExitJson (Some True) None
                                          (Some (''function's domain '' @ rid resource @
                                                 '' deleted'')), w3))))))
          else (FailJson ''id is required'', w))"

section \<open>scaleway\_mnq\_credential\<close>

definition mnq_credential_create ::
  "'s api \<Rightarrow> ansible_module \<Rightarrow> 's world \<Rightarrow> outcome \<times> 's world" where
  "mnq_credential_create api module w =
     (case dict_pop (params module) ''id'' PNone of
        (id', params') \<Rightarrow>
          if id' \<noteq> PNone then
            (case call Get (api_get api) [(''credential_id'', id')] w of
               (Inl e, w1) \<Rightarrow> (Raised e, w1)
             | (Inr resource, w1) \<Rightarrow>
                 if check_mode module then (ExitJson (Some False) None None, w1)
                 else (ExitJson (Some False) (Some resource) None, w1))
          else if check_mode module then (ExitJson (Some True) None None, w)
          else
            (case call Create (api_create api) (not_none params') w of
               (Inl e, w1) \<Rightarrow> (Raised e, w1)
             | (Inr resource, w1) \<Rightarrow> (ExitJson (Some True) (Some resource) None, w1)))"

text \<open>
  The tail of \<^verbatim>\<open>delete\<close> that every branch with a resource reaches: the check-mode exit,
  the delete call and the confirmation. The branch has read \<^verbatim>\<open>module.params["region"]\<close>
  already; the dictionary is not written in between, so the value is passed on.
\<close>

definition mnq_credential_delete_resource ::
  "'s api \<Rightarrow> ansible_module \<Rightarrow> pyval \<Rightarrow> resource \<Rightarrow> 's world \<Rightarrow> outcome \<times> 's world" where
  "mnq_credential_delete_resource api module region resource w =
     (if check_mode module then (ExitJson (Some True) None None, w)
      else
        (case call Delete (api_delete api)
                [(''credential_id'', PStr (rid resource)), (''region'', region)] w of
           (Inl e, w1) \<Rightarrow> (Raised e, w1)
         | (Inr u, w1) \<Rightarrow>
             (ExitJson (Some True) None
                (Some (''mnq's credential '' @ rname resource @ '' ('' @ rid resource @
                       '') deleted'')), w1)))"

text \<open>
  The two messages of the name lookup are plain strings in the source (no \<^verbatim>\<open>f\<close> prefix),
  so the braces stay as written; these two exits pass no \<^verbatim>\<open>changed\<close>.
\<close>

definition mnq_credential_delete ::
  "'s api \<Rightarrow> ansible_module \<Rightarrow> 's world \<Rightarrow> outcome \<times> 's world" where
  "mnq_credential_delete api module w =
     (case dict_pop (params module) ''id'' PNone of
        (id', params1) \<Rightarrow>
          (case dict_pop params1 ''name'' PNone of
             (name, params2) \<Rightarrow>
               if id' \<noteq> PNone then
                 (case dict_index params2 ''region'' of
                    Inl e \<Rightarrow> (Raised e, w)
                  | Inr region \<Rightarrow>
                      (case call Get (api_get api)
                              [(''credential_id'', id'), (''region'', region)] w of
                         (Inl e, w1) \<Rightarrow> (Raised e, w1)
                       | (Inr resource, w1) \<Rightarrow>
                           mnq_credential_delete_resource api module region resource w1))
               else if name \<noteq> PNone then
                 (case dict_index params2 ''region'' of
                    Inl e \<Rightarrow> (Raised e, w)
                  | Inr region \<Rightarrow>
                      (case call ListAll (api_list_all api)
                              [(''name'', name), (''region'', region)] w of
                         (Inl e, w1) \<Rightarrow> (Raised e, w1)
                       | (Inr resources, w1) \<Rightarrow>
                           if length resources = 0 then
                             (ExitJson None None
                                (Some ''No credential found with name {name}''), w1)
                           else if length resources > 1 then
                             (ExitJson None None
                                (Some ''More than one credential found with name {name}''), w1)
                           else
                             mnq_credential_delete_resource api module region
                               (hd resources) w1))
               else (FailJson ''id is required'', w)))"

section \<open>The argument specification and \<^verbatim>\<open>AnsibleModule\<close>\<close>

record arg_option =
  opt_type :: string
  opt_required :: bool
  opt_default :: pyval
  opt_choices :: "pyval list"

type_synonym argument_spec = "(string \<times> arg_option) list"

text \<open>\<^verbatim>\<open>dict(type=t)\<close>: not required, no default, no choices.\<close>

definition opt :: "string \<Rightarrow> arg_option" where
  "opt t = \<lparr>opt_type = t, opt_required = False, opt_default = PNone, opt_choices = []\<rparr>"

text \<open>\<^verbatim>\<open>d1.update(d2)\<close>\<close>

definition dict_update :: "('k \<times> 'v) list \<Rightarrow> ('k \<times> 'v) list \<Rightarrow> ('k \<times> 'v) list" where
  "dict_update d1 d2 = fold (\<lambda>(k, v). AList.update k v) d2 d1"

text \<open>
  \<^verbatim>\<open>AnsibleModule(argument_spec, required_one_of, supports_check_mode=True)\<close> belongs to
  Ansible, not to this repository. Its contract as the modules rely on it: it fails (as
  \<^verbatim>\<open>fail_json\<close> does) on an option that is not declared, on a required option that is
  missing, on a value outside the declared choices and on a \<^verbatim>\<open>required_one_of\<close> group
  with no member supplied; otherwise \<^verbatim>\<open>module.params\<close> holds every declared option,
  with the supplied value, else the default, else \<^verbatim>\<open>None\<close>. Type coercion is left out:
  the model accepts every value for every type.
\<close>

definition given :: "argument_spec \<Rightarrow> dict \<Rightarrow> dict" where
  "given spec args =
     args @ map (\<lambda>(k, ao). (k, opt_default ao))
              (filter (\<lambda>(k, ao). map_of args k = None \<and> opt_default ao \<noteq> PNone) spec)"

definition bad_choice :: "dict \<Rightarrow> string \<times> arg_option \<Rightarrow> bool" where
  "bad_choice d ka =
     (case map_of d (fst ka) of
        None \<Rightarrow> False
      | Some v \<Rightarrow> v \<noteq> PNone \<and> opt_choices (snd ka) \<noteq> [] \<and> v \<notin> set (opt_choices (snd ka)))"

definition AnsibleModule ::
  "argument_spec \<Rightarrow> string list list \<Rightarrow> dict \<Rightarrow> bool \<Rightarrow> string + ansible_module" where
  "AnsibleModule argument_spec required_one_of args check =
     (let d = given argument_spec args in
      if list_ex (\<lambda>(k, v). map_of argument_spec k = None) args then
        Inl ''Unsupported parameters''
      else if list_ex (\<lambda>(k, ao). opt_required ao \<and> map_of d k = None) argument_spec then
        Inl ''missing required arguments''
      else if list_ex (bad_choice d) argument_spec then
        Inl ''value must be one of the choices''
      else if list_ex (\<lambda>group. list_all (\<lambda>k. map_of d k = None) group) required_one_of then
        Inl ''one of the following is required''
      else
        Inr \<lparr>params = map (\<lambda>(k, ao). (k, case map_of d k of None \<Rightarrow> PNone | Some v \<Rightarrow> v))
                         argument_spec,
             check_mode = check\<rparr>)"

section \<open>The shared helpers of \<^verbatim>\<open>module_utils\<close> and \<^verbatim>\<open>core\<close>\<close>

text \<open>
  The helpers imported from \<^verbatim>\<open>plugins/module_utils/scaleway\<close> are not among the sources,
  so what they contribute is a parameter of every run: the two shared argument
  specifications, the option names that \<^verbatim>\<open>scaleway_pop_client_params\<close> and
  \<^verbatim>\<open>scaleway_pop_waitable_resource_params\<close> remove from \<^verbatim>\<open>module.params\<close>, and
  \<^verbatim>\<open>scaleway_get_client_from_module\<close>, which reads \<^verbatim>\<open>module.params\<close> and builds the
  client, or ends the run before any SDK method is called, with \<^verbatim>\<open>fail_json\<close> (\<open>Inl\<close>,
  the message) or with an exception (\<open>Inr\<close>). Whether the SDK can be imported is a
  parameter too.
\<close>

record env =
  sdk_installed :: bool
  scaleway_argument_spec :: argument_spec
  scaleway_waitable_resource_argument_spec :: argument_spec
  scaleway_get_client_from_module :: "dict \<Rightarrow> (string + pyexc) option"
  client_params :: "string list"
  waitable_resource_params :: "string list"

definition pop_params :: "string list \<Rightarrow> dict \<Rightarrow> dict" where
  "pop_params ks d = filter (\<lambda>(k, v). k \<notin> set ks) d"

fun failure_outcome :: "string + pyexc \<Rightarrow> outcome" where
  "failure_outcome (Inl m) = FailJson m"
| "failure_outcome (Inr e) = Raised e"

text \<open>
  The four \<^verbatim>\<open>core\<close> functions have the same text; each calls the \<^verbatim>\<open>create\<close> and
  \<^verbatim>\<open>delete\<close> of its own module, which are arguments here.
\<close>

definition core ::
  "env \<Rightarrow> ('s api \<Rightarrow> ansible_module \<Rightarrow> 's world \<Rightarrow> outcome \<times> 's world) \<Rightarrow>
   ('s api \<Rightarrow> ansible_module \<Rightarrow> 's world \<Rightarrow> outcome \<times> 's world) \<Rightarrow>
   's api \<Rightarrow> ansible_module \<Rightarrow> 's world \<Rightarrow> outcome \<times> 's world" where
  "core env create delete api module w =
     (case scaleway_get_client_from_module env (params module) of
        Some failure \<Rightarrow> (failure_outcome failure, w)
      | None \<Rightarrow>
          (case dict_pop_strict (params module) ''state'' of
             Inl e \<Rightarrow> (Raised e, w)
           | Inr (state, params1) \<Rightarrow>
               (let params2 = pop_params (client_params env) params1;
                    params3 = pop_params (waitable_resource_params env) params2;
                    module' = module\<lparr>params := params3\<rparr>
                in if state = PStr ''present'' then create api module' w
                   else if state = PStr ''absent'' then delete api module' w
                   else (Returned, w))))"

text \<open>
  The module that \<^verbatim>\<open>core\<close> hands to \<^verbatim>\<open>create\<close> and \<^verbatim>\<open>delete\<close> when the
  dictionary has the key \<^verbatim>\<open>state\<close>: the three pops applied.
\<close>

definition popped :: "env \<Rightarrow> ansible_module \<Rightarrow> ansible_module" where
  "popped env module =
     module\<lparr>params := pop_params (waitable_resource_params env)
                (pop_params (client_params env) (AList.delete ''state'' (params module)))\<rparr>"

section \<open>The four \<^verbatim>\<open>main\<close> functions\<close>

definition state_option :: arg_option where
  "state_option =
     \<lparr>opt_type = ''str'', opt_required = False, opt_default = PStr ''present'',
      opt_choices = [PStr ''absent'', PStr ''present'']\<rparr>"

definition region_option :: arg_option where
  "region_option =
     \<lparr>opt_type = ''str'', opt_required = False, opt_default = PNone,
      opt_choices = [PStr ''fr-par'', PStr ''nl-ams'', PStr ''pl-waw'']\<rparr>"

definition shared_spec :: "env \<Rightarrow> argument_spec" where
  "shared_spec env =
     dict_update (scaleway_argument_spec env) (scaleway_waitable_resource_argument_spec env)"

definition function_domain_argument_spec :: "env \<Rightarrow> argument_spec" where
  "function_domain_argument_spec env =
     dict_update (shared_spec env)
       [(''state'', state_option),
        (''domain_id'', opt ''str''),
        (''hostname'', (opt ''str'')\<lparr>opt_required := True\<rparr>),
        (''function_id'', (opt ''str'')\<lparr>opt_required := True\<rparr>),
        (''region'', region_option)]"

definition iam_application_argument_spec :: "env \<Rightarrow> argument_spec" where
  "iam_application_argument_spec env =
     dict_update (shared_spec env)
       [(''state'', state_option),
        (''id'', opt ''str''),
        (''description'', (opt ''str'')\<lparr>opt_required := True\<rparr>),
        (''name'', opt ''str''),
        (''organization_id'', opt ''str'')]"

definition mnq_credential_argument_spec :: "env \<Rightarrow> argument_spec" where
  "mnq_credential_argument_spec env =
     dict_update (shared_spec env)
       [(''state'', state_option),
        (''credential_id'', opt ''str''),
        (''namespace_id'', (opt ''str'')\<lparr>opt_required := True\<rparr>),
        (''region'', region_option),
        (''name'', opt ''str''),
        (''permissions'', opt ''dict'')]"

definition vpcgw_pat_rule_argument_spec :: "env \<Rightarrow> argument_spec" where
  "vpcgw_pat_rule_argument_spec env =
     dict_update (shared_spec env)
       [(''state'', state_option),
        (''id'', opt ''str''),
        (''gateway_id'', (opt ''str'')\<lparr>opt_required := True\<rparr>),
        (''public_port'', (opt ''int'')\<lparr>opt_required := True\<rparr>),
        (''private_ip'', (opt ''str'')\<lparr>opt_required := True\<rparr>),
        (''private_port'', (opt ''int'')\<lparr>opt_required := True\<rparr>),
        (''protocol'', (opt ''str'')\<lparr>opt_required := True,
            opt_choices := [PStr ''unknown'', PStr ''both'', PStr ''tcp'', PStr ''udp'']\<rparr>),
        (''zone'', opt ''str'')]"

text \<open>
  \<^verbatim>\<open>missing_required_lib("scaleway")\<close> is a function of Ansible that builds the message;
  its text stands for the message here.
\<close>

definition missing_required_lib :: string where
  "missing_required_lib = ''Failed to import the required Python library (scaleway)''"

text \<open>
  \<^verbatim>\<open>scaleway_function_domain\<close> and \<^verbatim>\<open>scaleway_mnq_credential\<close> guard the import of the
  SDK and fail with \<^verbatim>\<open>fail_json\<close> after the arguments are parsed; the other two import it
  at the top of the file, where a missing SDK raises \<^verbatim>\<open>ImportError\<close>. A run starts with
  an empty trace.
\<close>

definition function_domain_main ::
  "env \<Rightarrow> 's api \<Rightarrow> dict \<Rightarrow> bool \<Rightarrow> 's \<Rightarrow> outcome \<times> 's world" where
  "function_domain_main env api args check s =
     (let w = \<lparr>provider = s, trace = []\<rparr> in
      case AnsibleModule (function_domain_argument_spec env) [] args check of
        Inl m \<Rightarrow> (FailJson m, w)
      | Inr module \<Rightarrow>
          if \<not> sdk_installed env then (FailJson missing_required_lib, w)
          else core env function_domain_create function_domain_delete api module w)"

definition iam_application_main ::
  "env \<Rightarrow> 's api \<Rightarrow> dict \<Rightarrow> bool \<Rightarrow> 's \<Rightarrow> outcome \<times> 's world" where
  "iam_application_main env api args check s =
     (let w = \<lparr>provider = s, trace = []\<rparr> in
      if \<not> sdk_installed env then (Raised (ImportError ''scaleway''), w)
      else
        case AnsibleModule (iam_application_argument_spec env) [[''id'', ''name'']] args check of
          Inl m \<Rightarrow> (FailJson m, w)
        | Inr module \<Rightarrow> core env iam_application_create iam_application_delete api module w)"

definition mnq_credential_main ::
  "env \<Rightarrow> 's api \<Rightarrow> dict \<Rightarrow> bool \<Rightarrow> 's \<Rightarrow> outcome \<times> 's world" where
  "mnq_credential_main env api args check s =
     (let w = \<lparr>provider = s, trace = []\<rparr> in
      case AnsibleModule (mnq_credential_argument_spec env) [[''credential_id'', ''name'']]
             args check of
        Inl m \<Rightarrow> (FailJson m, w)
      | Inr module \<Rightarrow>
          if \<not> sdk_installed env then (FailJson missing_required_lib, w)
          else core env mnq_credential_create mnq_credential_delete api module w)"

definition vpcgw_pat_rule_main ::
  "env \<Rightarrow> 's api \<Rightarrow> dict \<Rightarrow> bool \<Rightarrow> 's \<Rightarrow> outcome \<times> 's world" where
  "vpcgw_pat_rule_main env api args check s =
     (let w = \<lparr>provider = s, trace = []\<rparr> in
      if \<not> sdk_installed env then (Raised (ImportError ''scaleway''), w)
      else
        case AnsibleModule (vpcgw_pat_rule_argument_spec env) [] args check of
          Inl m \<Rightarrow> (FailJson m, w)
        | Inr module \<Rightarrow> core env vpcgw_pat_rule_create vpcgw_pat_rule_delete api module w)"

text \<open>The resource kinds, to speak about all four modules at once.\<close>

datatype kind = FunctionDomain | IamApplication | MnqCredential | VpcgwPatRule

fun create_of :: "kind \<Rightarrow> 's api \<Rightarrow> ansible_module \<Rightarrow> 's world \<Rightarrow> outcome \<times> 's world" where
  "create_of FunctionDomain = function_domain_create"
| "create_of IamApplication = iam_application_create"
| "create_of MnqCredential = mnq_credential_create"
| "create_of VpcgwPatRule = vpcgw_pat_rule_create"

fun delete_of :: "kind \<Rightarrow> 's api \<Rightarrow> ansible_module \<Rightarrow> 's world \<Rightarrow> outcome \<times> 's world" where
  "delete_of FunctionDomain = function_domain_delete"
| "delete_of IamApplication = iam_application_delete"
| "delete_of MnqCredential = mnq_credential_delete"
| "delete_of VpcgwPatRule = vpcgw_pat_rule_delete"

fun argument_spec_of :: "kind \<Rightarrow> env \<Rightarrow> argument_spec" where
  "argument_spec_of FunctionDomain = function_domain_argument_spec"
| "argument_spec_of IamApplication = iam_application_argument_spec"
| "argument_spec_of MnqCredential = mnq_credential_argument_spec"
| "argument_spec_of VpcgwPatRule = vpcgw_pat_rule_argument_spec"

fun required_one_of_of :: "kind \<Rightarrow> string list list" where
  "required_one_of_of FunctionDomain = []"
| "required_one_of_of IamApplication = [[''id'', ''name'']]"
| "required_one_of_of MnqCredential = [[''credential_id'', ''name'']]"
| "required_one_of_of VpcgwPatRule = []"

fun main :: "kind \<Rightarrow> env \<Rightarrow> 's api \<Rightarrow> dict \<Rightarrow> bool \<Rightarrow> 's \<Rightarrow> outcome \<times> 's world" where
  "main FunctionDomain = function_domain_main"
| "main IamApplication = iam_application_main"
| "main MnqCredential = mnq_credential_main"
| "main VpcgwPatRule = vpcgw_pat_rule_main"

section \<open>A provider and an environment to run the modules on\<close>

text \<open>
  For concrete runs: a provider that keeps the resources in a list. The first keyword
  argument of \<open>get\<close>, \<open>delete\<close> and \<open>wait_for\<close> is the id; an unknown id answers with
  status 404. \<open>create\<close> stores a resource with a fresh id and the keyword arguments as
  fields.
\<close>

definition store_get :: "dict \<Rightarrow> resource list \<Rightarrow> (pyexc + resource) \<times> resource list" where
  "store_get kwargs s =
     (case kwargs of
        (k, PStr i) # rest \<Rightarrow>
          (case find (\<lambda>r. rid r = i) s of
             None \<Rightarrow> (Inl (ScalewayException 404), s)
           | Some r \<Rightarrow> (Inr r, s))
      | _ \<Rightarrow> (Inl (OtherException ''TypeError''), s))"

definition store_list_all ::
  "dict \<Rightarrow> resource list \<Rightarrow> (pyexc + resource list) \<times> resource list" where
  "store_list_all kwargs s =
     (case map_of kwargs ''name'' of
        Some (PStr n) \<Rightarrow> (Inr (filter (\<lambda>r. rname r = n) s), s)
      | _ \<Rightarrow> (Inr s, s))"

definition store_create :: "dict \<Rightarrow> resource list \<Rightarrow> (pyexc + resource) \<times> resource list" where
  "store_create kwargs s =
     (let r = \<lparr>rid = ''r-'' @ replicate (length s) (CHR ''i''),
               rname = (case map_of kwargs ''name'' of Some (PStr n) \<Rightarrow> n | _ \<Rightarrow> ''None''),
               rfields = kwargs\<rparr>
      in (Inr r, s @ [r]))"

definition store_delete :: "dict \<Rightarrow> resource list \<Rightarrow> (pyexc + unit) \<times> resource list" where
  "store_delete kwargs s =
     (case kwargs of
        (k, PStr i) # rest \<Rightarrow>
          if list_ex (\<lambda>r. rid r = i) s then (Inr (), filter (\<lambda>r. rid r \<noteq> i) s)
          else (Inl (ScalewayException 404), s)
      | _ \<Rightarrow> (Inl (OtherException ''TypeError''), s))"

definition store_api :: "resource list api" where
  "store_api =
     \<lparr>api_get = store_get, api_list_all = store_list_all, api_create = store_create,
      api_delete = store_delete, api_wait_for = store_get\<rparr>"

text \<open>The same provider, rejecting every create with status 400.\<close>

definition rejecting_api :: "resource list api" where
  "rejecting_api = store_api\<lparr>api_create := (\<lambda>kwargs s. (Inl (ScalewayException 400), s))\<rparr>"

text \<open>
  An environment with the SDK installed, two client options and the two options of a
  waitable resource, all of them popped by the helpers, and a client that is always built.
\<close>

definition plain_env :: env where
  "plain_env =
     \<lparr>sdk_installed = True,
      scaleway_argument_spec = [(''access_key'', opt ''str''), (''secret_key'', opt ''str'')],
      scaleway_waitable_resource_argument_spec =
        [(''wait'', (opt ''bool'')\<lparr>opt_default := PBool True\<rparr>),
         (''wait_timeout'', (opt ''int'')\<lparr>opt_default := PInt 300\<rparr>)],
      scaleway_get_client_from_module = (\<lambda>params. None),
      client_params = [''access_key'', ''secret_key''],
      waitable_resource_params = [''wait'', ''wait_timeout'']\<rparr>"

text \<open>Resources, arguments and parsed modules of the concrete runs below.\<close>

definition dom1 :: resource where
  "dom1 = \<lparr>rid = ''d-1'', rname = ''None'', rfields = []\<rparr>"

definition domain_absent_args :: dict where
  "domain_absent_args =
     [(''state'', PStr ''absent''), (''domain_id'', PStr ''d-1''),
      (''hostname'', PStr ''api.example.com''), (''function_id'', PStr ''f-1'')]"

definition domain_absent_module :: ansible_module where
  "domain_absent_module =
     \<lparr>params =
        [(''access_key'', PNone), (''secret_key'', PNone), (''wait'', PBool True),
         (''wait_timeout'', PInt 300), (''state'', PStr ''absent''),
         (''domain_id'', PStr ''d-1''), (''hostname'', PStr ''api.example.com''),
         (''function_id'', PStr ''f-1''), (''region'', PNone)],
      check_mode = False\<rparr>"

section \<open>Predicates on runs\<close>

text \<open>
  What the properties below say about a run, the pair of its outcome and the world it
  leaves: which calls of the trace create, whether \<^verbatim>\<open>create\<close> reads an id, what a
  failed call does to the outcome, and how a run in check mode relates to the run without.
\<close>

definition is_create :: "event \<Rightarrow> bool" where
  "is_create ev = (ev_op ev = Create)"

definition reads_no_id :: "ansible_module \<Rightarrow> bool" where
  "reads_no_id module = (fst (dict_pop (params module) ''id'' PNone) = PNone)"

definition create_verdict :: "ansible_module \<Rightarrow> outcome \<times> 's world \<Rightarrow> bool" where
  "create_verdict module r =
     ((changed_of (fst r) = None \<or> changed_of (fst r) = Some (reads_no_id module)) \<and>
      list_ex is_create (trace (snd r)) = (reads_no_id module \<and> \<not> check_mode module))"

definition delete_verdict :: "outcome \<times> 's world \<Rightarrow> bool" where
  "delete_verdict r =
     ((changed_of (fst r) = None \<or> changed_of (fst r) = Some True) \<and>
      \<not> list_ex is_create (trace (snd r)))"

definition failure_ok :: "outcome \<Rightarrow> event list \<Rightarrow> event \<Rightarrow> bool" where
  "failure_ok out tr ev =
     (case ev_raised ev of
        None \<Rightarrow> True
      | Some e \<Rightarrow>
          ev = last tr \<and>
          (if ev_op ev = WaitFor \<and> swallowed e \<and> list_ex (\<lambda>d. ev_op d = Delete) tr
           then changed_of out = Some True else out = Raised e))"

definition failures_raised :: "outcome \<times> 's world \<Rightarrow> bool" where
  "failures_raised r = list_all (failure_ok (fst r) (trace (snd r))) (trace (snd r))"

text \<open>The first call of a trace is a create with the given keyword arguments.\<close>

definition creates_first :: "dict \<Rightarrow> event list \<Rightarrow> bool" where
  "creates_first kwargs tr =
     (case tr of [] \<Rightarrow> False | ev # evs \<Rightarrow> ev_op ev = Create \<and> ev_args ev = kwargs)"

definition dry_run_agrees :: "outcome \<times> 's world \<Rightarrow> outcome \<times> 's world \<Rightarrow> bool" where
  "dry_run_agrees c r =
     (\<not> list_ex mutating (trace (snd c)) \<and>
      (changed_of (fst c) = Some True \<longrightarrow> list_ex mutating (trace (snd r))) \<and>
      (changed_of (fst c) = Some False \<longrightarrow>
         \<not> list_ex mutating (trace (snd r)) \<and> changed_of (fst r) = Some False) \<and>
      (changed_of (fst c) = None \<longrightarrow> r = c))"

text \<open>More arguments, resources and runs for the concrete cases.\<close>

definition app1 :: resource where
  "app1 = \<lparr>rid = ''app-1'', rname = ''web'', rfields = []\<rparr>"

definition iam_present_args :: dict where
  "iam_present_args = [(''description'', PStr ''demo''), (''name'', PStr ''web'')]"

definition iam_fetch_args :: dict where
  "iam_fetch_args = [(''id'', PStr ''app-1''), (''description'', PStr ''demo'')]"

definition iam_absent_args :: dict where
  "iam_absent_args =
     [(''state'', PStr ''absent''), (''id'', PStr ''app-1''), (''description'', PStr ''demo'')]"

definition pat_rule_args :: dict where
  "pat_rule_args =
     [(''gateway_id'', PStr ''gw-1''), (''public_port'', PInt 80),
      (''private_ip'', PStr ''10.0.0.2''), (''private_port'', PInt 8080),
      (''protocol'', PStr ''tcp'')]"

definition domain_absent_region_args :: dict where
  "domain_absent_region_args =
     [(''state'', PStr ''absent''), (''domain_id'', PStr ''d-1''),
      (''hostname'', PStr ''api.example.com''), (''function_id'', PStr ''f-1''),
      (''region'', PStr ''fr-par'')]"

definition domain_absent_no_id_args :: dict where
  "domain_absent_no_id_args =
     [(''state'', PStr ''absent''), (''hostname'', PStr ''api.example.com''),
      (''function_id'', PStr ''f-1'')]"

definition domain_present_args :: dict where
  "domain_present_args =
     [(''domain_id'', PStr ''d-1''), (''hostname'', PStr ''api.example.com''),
      (''function_id'', PStr ''f-1'')]"

definition domain_present_module :: ansible_module where
  "domain_present_module =
     \<lparr>params =
        [(''access_key'', PNone), (''secret_key'', PNone), (''wait'', PBool True),
         (''wait_timeout'', PInt 300), (''state'', PStr ''present''),
         (''domain_id'', PStr ''d-1''), (''hostname'', PStr ''api.example.com''),
         (''function_id'', PStr ''f-1''), (''region'', PNone)],
      check_mode = False\<rparr>"

definition iam_first_run :: "outcome \<times> resource list world" where
  "iam_first_run = main IamApplication plain_env store_api iam_present_args False []"

definition iam_second_run :: "outcome \<times> resource list world" where
  "iam_second_run =
     main IamApplication plain_env store_api iam_present_args False (provider (snd iam_first_run))"

definition iam_rejected_run :: "outcome \<times> resource list world" where
  "iam_rejected_run = main IamApplication plain_env rejecting_api iam_present_args False []"

definition rejected_create :: event where
  "rejected_create =
     \<lparr>ev_op = Create,
      ev_args = [(''description'', PStr ''demo''), (''name'', PStr ''web''),
                 (''organization_id'', PNone)],
      ev_raised = Some (ScalewayException 400)\<rparr>"

definition pat_check_run :: "outcome \<times> resource list world" where
  "pat_check_run = main VpcgwPatRule plain_env store_api pat_rule_args True []"

definition pat_real_run :: "outcome \<times> resource list world" where
  "pat_real_run = main VpcgwPatRule plain_env store_api pat_rule_args False []"

definition iam_fetch_check_run :: "outcome \<times> resource list world" where
  "iam_fetch_check_run = main IamApplication plain_env store_api iam_fetch_args True [app1]"

definition iam_fetch_real_run :: "outcome \<times> resource list world" where
  "iam_fetch_real_run = main IamApplication plain_env store_api iam_fetch_args False [app1]"

definition cred1 :: resource where
  "cred1 = \<lparr>rid = ''c-1'', rname = ''queue'', rfields = []\<rparr>"

definition cred2 :: resource where
  "cred2 = \<lparr>rid = ''c-2'', rname = ''queue'', rfields = []\<rparr>"

definition mnq_by_name_module :: ansible_module where
  "mnq_by_name_module =
     \<lparr>params =
        [(''credential_id'', PNone), (''namespace_id'', PStr ''ns-1''), (''region'', PNone),
         (''name'', PStr ''queue''), (''permissions'', PNone)],
      check_mode = False\<rparr>"


section \<open>Dictionaries, parsing and \<^verbatim>\<open>core\<close>: basic facts\<close>

lemma map_of_pop_params:
  "map_of (pop_params ks d) k = (if k \<in> set ks then None else map_of d k)"
  by (induction d) (auto simp: pop_params_def)

lemma keys_update_fold:
  "fst ` set (fold (\<lambda>(k, v). AList.update k v) d2 d1) = fst ` set d1 \<union> fst ` set d2"
proof (induction d2 arbitrary: d1)
  case Nil
  then show ?case by simp
next
  case (Cons kv d2)
  obtain k v where kv: "kv = (k, v)" by (cases kv)
  show ?case unfolding kv by (simp add: Cons.IH dom_update)
qed

lemma keys_dict_update: "fst ` set (dict_update d1 d2) = fst ` set d1 \<union> fst ` set d2"
  unfolding dict_update_def by (rule keys_update_fold)

lemma AnsibleModule_Inr:
  assumes "AnsibleModule spec groups args check = Inr module"
  shows "params module =
           map (\<lambda>(k, ao). (k, case map_of (given spec args) k of None \<Rightarrow> PNone | Some v \<Rightarrow> v))
             spec"
    and "check_mode module = check"
  using assms by (auto simp: AnsibleModule_def Let_def split: if_splits)

lemma AnsibleModule_keys:
  assumes "AnsibleModule spec groups args check = Inr module"
  shows "fst ` set (params module) = fst ` set spec"
  unfolding AnsibleModule_Inr(1)[OF assms] by (force simp: image_iff)

lemma map_of_None_keys: "map_of d k = None \<longleftrightarrow> k \<notin> fst ` set d"
  by (rule map_of_eq_None_iff)

lemma map_of_popped_None:
  "map_of d k = None \<Longrightarrow>
   map_of (pop_params ks2 (pop_params ks1 (AList.delete k' d))) k = None"
  by (simp add: map_of_pop_params delete_conv')

lemma core_absent:
  assumes "scaleway_get_client_from_module env (params module) = None"
    and "map_of (params module) ''state'' = Some (PStr ''absent'')"
  shows "core env create delete api module w = delete api (popped env module) w"
  using assms by (simp add: core_def dict_pop_strict_def Let_def popped_def)

lemma core_present:
  assumes "scaleway_get_client_from_module env (params module) = None"
    and "map_of (params module) ''state'' = Some (PStr ''present'')"
  shows "core env create delete api module w = create api (popped env module) w"
  using assms by (simp add: core_def dict_pop_strict_def Let_def popped_def)

lemma popped_no_id:
  "map_of (params module) ''id'' = None \<Longrightarrow> map_of (params (popped env module)) ''id'' = None"
  by (simp add: popped_def map_of_popped_None)

lemma popped_check_mode: "check_mode (popped env module) = check_mode module"
  by (simp add: popped_def)

section \<open>The \<^verbatim>\<open>id\<close> key in scaleway\_function\_domain and scaleway\_mnq\_credential\<close>

lemma function_domain_no_id:
  assumes "AnsibleModule (function_domain_argument_spec env) groups args check = Inr module"
    and "''id'' \<notin> fst ` set (scaleway_argument_spec env)"
    and "''id'' \<notin> fst ` set (scaleway_waitable_resource_argument_spec env)"
  shows "map_of (params module) ''id'' = None"
  using assms(2,3) unfolding map_of_None_keys AnsibleModule_keys[OF assms(1)]
  by (simp add: function_domain_argument_spec_def shared_spec_def keys_dict_update)

lemma mnq_credential_no_id:
  assumes "AnsibleModule (mnq_credential_argument_spec env) groups args check = Inr module"
    and "''id'' \<notin> fst ` set (scaleway_argument_spec env)"
    and "''id'' \<notin> fst ` set (scaleway_waitable_resource_argument_spec env)"
  shows "map_of (params module) ''id'' = None"
  using assms(2,3) unfolding map_of_None_keys AnsibleModule_keys[OF assms(1)]
  by (simp add: mnq_credential_argument_spec_def shared_spec_def keys_dict_update)

text \<open>
  C10. Every run of scaleway\_function\_domain with \<^verbatim>\<open>state=absent\<close> that gets as far as
  \<^verbatim>\<open>delete\<close> (the SDK is installed, the arguments parse, the client is built) ends with
  an uncaught \<^verbatim>\<open>KeyError\<close> for the key \<^verbatim>\<open>id\<close>: the module declares \<^verbatim>\<open>domain_id\<close>, and
  the shared specifications declare no option \<^verbatim>\<open>id\<close>, so \<^verbatim>\<open>module.params["id"]\<close> fails,
  before the \<^verbatim>\<open>id is required\<close> failure and before any call to the provider.
\<close>

theorem function_domain_delete_raises_key_error:
  assumes "sdk_installed env"
    and "AnsibleModule (function_domain_argument_spec env) [] args check = Inr module"
    and "scaleway_get_client_from_module env (params module) = None"
    and "map_of (params module) ''state'' = Some (PStr ''absent'')"
    and "''id'' \<notin> fst ` set (scaleway_argument_spec env)"
    and "''id'' \<notin> fst ` set (scaleway_waitable_resource_argument_spec env)"
  shows "function_domain_main env api args check s =
           (Raised (KeyError ''id''), \<lparr>provider = s, trace = []\<rparr>)"
proof -
  have "map_of (params (popped env module)) ''id'' = None"
    using function_domain_no_id[OF assms(2,5,6)] by (rule popped_no_id)
  then have "function_domain_delete api (popped env module) w = (Raised (KeyError ''id''), w)"
    for w :: "'a world"
    by (simp add: function_domain_delete_def dict_index_def)
  then show ?thesis
    using assms(1,2) by (simp add: function_domain_main_def core_absent[OF assms(3,4)])
qed

theorem function_domain_delete_raises_key_error_witness:
  "sdk_installed plain_env \<and>
   AnsibleModule (function_domain_argument_spec plain_env) [] domain_absent_args False =
     Inr domain_absent_module \<and>
   scaleway_get_client_from_module plain_env (params domain_absent_module) = None \<and>
   map_of (params domain_absent_module) ''state'' = Some (PStr ''absent'') \<and>
   ''id'' \<notin> fst ` set (scaleway_argument_spec plain_env) \<and>
   ''id'' \<notin> fst ` set (scaleway_waitable_resource_argument_spec plain_env) \<and>
   function_domain_main plain_env store_api domain_absent_args False [dom1] =
     (Raised (KeyError ''id''), \<lparr>provider = [dom1], trace = []\<rparr>)"
proof -
  have 1: "sdk_installed plain_env" by (simp add: plain_env_def)
  have 2: "AnsibleModule (function_domain_argument_spec plain_env) [] domain_absent_args False
           = Inr domain_absent_module" by code_simp
  have 3: "scaleway_get_client_from_module plain_env (params domain_absent_module) = None"
    by (simp add: plain_env_def)
  have 4: "map_of (params domain_absent_module) ''state'' = Some (PStr ''absent'')"
    by (simp add: domain_absent_module_def)
  have 5: "''id'' \<notin> fst ` set (scaleway_argument_spec plain_env)"
    by (simp add: plain_env_def)
  have 6: "''id'' \<notin> fst ` set (scaleway_waitable_resource_argument_spec plain_env)"
    by (simp add: plain_env_def)
  from function_domain_delete_raises_key_error[OF 1 2 3 4 5 6, of store_api "[dom1]"]
  show ?thesis using 1 2 3 4 5 6 by simp
qed

section \<open>The eight functions, one by one\<close>

lemmas run_defs = dict_pop_def dict_index_def call_def raised_of_def

lemmas run_splits = prod.splits sum.splits option.splits if_splits

lemma vpcgw_create_verdict:
  "trace w = [] \<Longrightarrow> create_verdict m (vpcgw_pat_rule_create api m w)"
  by (simp add: create_verdict_def reads_no_id_def is_create_def vpcgw_pat_rule_create_def
      run_defs split: run_splits)

lemma iam_create_verdict:
  "trace w = [] \<Longrightarrow> create_verdict m (iam_application_create api m w)"
  by (simp add: create_verdict_def reads_no_id_def is_create_def iam_application_create_def
      run_defs split: run_splits)

lemma fd_create_verdict:
  "trace w = [] \<Longrightarrow> create_verdict m (function_domain_create api m w)"
  by (simp add: create_verdict_def reads_no_id_def is_create_def function_domain_create_def
      run_defs split: run_splits)

lemma mnq_create_verdict:
  "trace w = [] \<Longrightarrow> create_verdict m (mnq_credential_create api m w)"
  by (simp add: create_verdict_def reads_no_id_def is_create_def mnq_credential_create_def
      run_defs split: run_splits)

lemma vpcgw_delete_verdict:
  "trace w = [] \<Longrightarrow> delete_verdict (vpcgw_pat_rule_delete api m w)"
  by (simp add: delete_verdict_def is_create_def vpcgw_pat_rule_delete_def
      run_defs split: run_splits)

lemma iam_delete_verdict:
  "trace w = [] \<Longrightarrow> delete_verdict (iam_application_delete api m w)"
  by (simp add: delete_verdict_def is_create_def iam_application_delete_def
      run_defs split: run_splits)

lemma fd_delete_verdict:
  "trace w = [] \<Longrightarrow> delete_verdict (function_domain_delete api m w)"
  by (simp add: delete_verdict_def is_create_def function_domain_delete_def
      run_defs split: run_splits)

lemma mnq_delete_verdict:
  "trace w = [] \<Longrightarrow> delete_verdict (mnq_credential_delete api m w)"
  by (simp add: delete_verdict_def is_create_def mnq_credential_delete_def
      mnq_credential_delete_resource_def run_defs split: run_splits)

lemma vpcgw_create_fail:
  "trace w = [] \<Longrightarrow> failures_raised (vpcgw_pat_rule_create api m w)"
  by (simp add: failures_raised_def failure_ok_def vpcgw_pat_rule_create_def
      run_defs split: run_splits)

lemma vpcgw_delete_fail:
  "trace w = [] \<Longrightarrow> failures_raised (vpcgw_pat_rule_delete api m w)"
  by (simp add: failures_raised_def failure_ok_def vpcgw_pat_rule_delete_def
      run_defs split: run_splits)

lemma iam_create_fail:
  "trace w = [] \<Longrightarrow> failures_raised (iam_application_create api m w)"
  by (simp add: failures_raised_def failure_ok_def iam_application_create_def
      run_defs split: run_splits)

lemma iam_delete_fail:
  "trace w = [] \<Longrightarrow> failures_raised (iam_application_delete api m w)"
  by (simp add: failures_raised_def failure_ok_def iam_application_delete_def
      run_defs split: run_splits)

lemma fd_create_fail:
  "trace w = [] \<Longrightarrow> failures_raised (function_domain_create api m w)"
  by (simp add: failures_raised_def failure_ok_def function_domain_create_def
      run_defs split: run_splits)

lemma fd_delete_fail:
  "trace w = [] \<Longrightarrow> failures_raised (function_domain_delete api m w)"
  by (simp add: failures_raised_def failure_ok_def function_domain_delete_def
      run_defs split: run_splits)

lemma mnq_create_fail:
  "trace w = [] \<Longrightarrow> failures_raised (mnq_credential_create api m w)"
  by (simp add: failures_raised_def failure_ok_def mnq_credential_create_def
      run_defs split: run_splits)

lemma mnq_delete_fail:
  "trace w = [] \<Longrightarrow> failures_raised (mnq_credential_delete api m w)"
  by (simp add: failures_raised_def failure_ok_def mnq_credential_delete_def mnq_credential_delete_resource_def
      run_defs split: run_splits)

lemma vpcgw_create_dry:
  "trace w = [] \<Longrightarrow>
   dry_run_agrees (vpcgw_pat_rule_create api (m\<lparr>check_mode := True\<rparr>) w)
                  (vpcgw_pat_rule_create api (m\<lparr>check_mode := False\<rparr>) w)"
  by (simp add: dry_run_agrees_def mutating_def vpcgw_pat_rule_create_def
      run_defs split: run_splits)

lemma vpcgw_delete_dry:
  "trace w = [] \<Longrightarrow>
   dry_run_agrees (vpcgw_pat_rule_delete api (m\<lparr>check_mode := True\<rparr>) w)
                  (vpcgw_pat_rule_delete api (m\<lparr>check_mode := False\<rparr>) w)"
  by (simp add: dry_run_agrees_def mutating_def vpcgw_pat_rule_delete_def
      run_defs split: run_splits)

lemma iam_create_dry:
  "trace w = [] \<Longrightarrow>
   dry_run_agrees (iam_application_create api (m\<lparr>check_mode := True\<rparr>) w)
                  (iam_application_create api (m\<lparr>check_mode := False\<rparr>) w)"
  by (simp add: dry_run_agrees_def mutating_def iam_application_create_def
      run_defs split: run_splits)

lemma iam_delete_dry:
  "trace w = [] \<Longrightarrow>
   dry_run_agrees (iam_application_delete api (m\<lparr>check_mode := True\<rparr>) w)
                  (iam_application_delete api (m\<lparr>check_mode := False\<rparr>) w)"
  by (simp add: dry_run_agrees_def mutating_def iam_application_delete_def
      run_defs split: run_splits)

lemma fd_create_dry:
  "trace w = [] \<Longrightarrow>
   dry_run_agrees (function_domain_create api (m\<lparr>check_mode := True\<rparr>) w)
                  (function_domain_create api (m\<lparr>check_mode := False\<rparr>) w)"
  by (simp add: dry_run_agrees_def mutating_def function_domain_create_def
      run_defs split: run_splits)

lemma fd_delete_dry:
  "trace w = [] \<Longrightarrow>
   dry_run_agrees (function_domain_delete api (m\<lparr>check_mode := True\<rparr>) w)
                  (function_domain_delete api (m\<lparr>check_mode := False\<rparr>) w)"
  by (simp add: dry_run_agrees_def mutating_def function_domain_delete_def
      run_defs split: run_splits)

lemma mnq_create_dry:
  "trace w = [] \<Longrightarrow>
   dry_run_agrees (mnq_credential_create api (m\<lparr>check_mode := True\<rparr>) w)
                  (mnq_credential_create api (m\<lparr>check_mode := False\<rparr>) w)"
  by (simp add: dry_run_agrees_def mutating_def mnq_credential_create_def
      run_defs split: run_splits)

lemma mnq_delete_dry:
  "trace w = [] \<Longrightarrow>
   dry_run_agrees (mnq_credential_delete api (m\<lparr>check_mode := True\<rparr>) w)
                  (mnq_credential_delete api (m\<lparr>check_mode := False\<rparr>) w)"
  by (simp add: dry_run_agrees_def mutating_def mnq_credential_delete_def mnq_credential_delete_resource_def
      run_defs split: run_splits)

lemma create_of_verdict: "trace w = [] \<Longrightarrow> create_verdict m (create_of kind api m w)"
  by (cases kind)
     (simp_all add: vpcgw_create_verdict iam_create_verdict fd_create_verdict mnq_create_verdict)

lemma delete_of_verdict: "trace w = [] \<Longrightarrow> delete_verdict (delete_of kind api m w)"
  by (cases kind)
     (simp_all add: vpcgw_delete_verdict iam_delete_verdict fd_delete_verdict mnq_delete_verdict)

lemma create_of_fail: "trace w = [] \<Longrightarrow> failures_raised (create_of kind api m w)"
  by (cases kind) (simp_all add: vpcgw_create_fail iam_create_fail fd_create_fail mnq_create_fail)

lemma delete_of_fail: "trace w = [] \<Longrightarrow> failures_raised (delete_of kind api m w)"
  by (cases kind) (simp_all add: vpcgw_delete_fail iam_delete_fail fd_delete_fail mnq_delete_fail)

lemma create_of_dry:
  "trace w = [] \<Longrightarrow>
   dry_run_agrees (create_of kind api (m\<lparr>check_mode := True\<rparr>) w)
                  (create_of kind api (m\<lparr>check_mode := False\<rparr>) w)"
  by (cases kind) (simp_all add: vpcgw_create_dry iam_create_dry fd_create_dry mnq_create_dry)

lemma delete_of_dry:
  "trace w = [] \<Longrightarrow>
   dry_run_agrees (delete_of kind api (m\<lparr>check_mode := True\<rparr>) w)
                  (delete_of kind api (m\<lparr>check_mode := False\<rparr>) w)"
  by (cases kind) (simp_all add: vpcgw_delete_dry iam_delete_dry fd_delete_dry mnq_delete_dry)

lemma AnsibleModule_check_mode:
  "AnsibleModule spec groups args check =
     (case AnsibleModule spec groups args False of
        Inl m \<Rightarrow> Inl m
      | Inr module \<Rightarrow> Inr (module\<lparr>check_mode := check\<rparr>))"
  by (simp add: AnsibleModule_def Let_def)

lemma popped_update_check_mode:
  "popped env (module\<lparr>check_mode := c\<rparr>) = (popped env module)\<lparr>check_mode := c\<rparr>"
  by (simp add: popped_def)

lemma changed_of_failure_outcome: "changed_of (failure_outcome f) = None"
  by (cases f) simp_all

lemma core_run_cases:
  fixes create delete :: "'s api \<Rightarrow> ansible_module \<Rightarrow> 's world \<Rightarrow> outcome \<times> 's world"
  obtains
    (early) out where "changed_of out = None"
      and "\<And>(api :: 's api) check w.
             core env create delete api (module\<lparr>check_mode := check\<rparr>) w = (out, w)"
  | (present) "\<And>(api :: 's api) check w.
             core env create delete api (module\<lparr>check_mode := check\<rparr>) w =
             create api ((popped env module)\<lparr>check_mode := check\<rparr>) w"
  | (absent) "\<And>(api :: 's api) check w.
             core env create delete api (module\<lparr>check_mode := check\<rparr>) w =
             delete api ((popped env module)\<lparr>check_mode := check\<rparr>) w"
proof (cases "scaleway_get_client_from_module env (params module)")
  case (Some f)
  then have "core env create delete api (module\<lparr>check_mode := check\<rparr>) w =
             (failure_outcome f, w)" for api :: "'s api" and check w
    by (simp add: core_def)
  then show thesis using early changed_of_failure_outcome by blast
next
  case None
  show thesis
  proof (cases "map_of (params module) ''state''")
    case nostate: None
    have "core env create delete api (module\<lparr>check_mode := check\<rparr>) w =
          (Raised (KeyError ''state''), w)" for api :: "'s api" and check w
      using None nostate by (simp add: core_def dict_pop_strict_def)
    then show thesis using early[of "Raised (KeyError ''state'')"] by simp
  next
    case (Some st)
    consider "st = PStr ''present''" | "st = PStr ''absent''"
      | "st \<noteq> PStr ''present''" "st \<noteq> PStr ''absent''" by blast
    then show thesis
    proof cases
      case 1
      have "core env create delete api (module\<lparr>check_mode := check\<rparr>) w =
            create api ((popped env module)\<lparr>check_mode := check\<rparr>) w"
        for api :: "'s api" and check w
        using None Some 1 unfolding popped_update_check_mode[symmetric]
        by (simp add: core_def dict_pop_strict_def popped_def Let_def)
      then show thesis using present by blast
    next
      case 2
      have "core env create delete api (module\<lparr>check_mode := check\<rparr>) w =
            delete api ((popped env module)\<lparr>check_mode := check\<rparr>) w"
        for api :: "'s api" and check w
        using None Some 2 unfolding popped_update_check_mode[symmetric]
        by (simp add: core_def dict_pop_strict_def popped_def Let_def)
      then show thesis using absent by blast
    next
      case 3
      have "core env create delete api (module\<lparr>check_mode := check\<rparr>) w = (Returned, w)"
        for api :: "'s api" and check w
        using None Some 3 by (simp add: core_def dict_pop_strict_def Let_def)
      then show thesis using early[of Returned] by simp
    qed
  qed
qed

lemma main_unfold:
  "main kind env api args check s =
     (if \<not> sdk_installed env \<and> (kind = IamApplication \<or> kind = VpcgwPatRule)
      then (Raised (ImportError ''scaleway''), \<lparr>provider = s, trace = []\<rparr>)
      else
        case AnsibleModule (argument_spec_of kind env) (required_one_of_of kind) args False of
          Inl m \<Rightarrow> (FailJson m, \<lparr>provider = s, trace = []\<rparr>)
        | Inr module \<Rightarrow>
            if \<not> sdk_installed env
            then (FailJson missing_required_lib, \<lparr>provider = s, trace = []\<rparr>)
            else core env (create_of kind) (delete_of kind) api
                   (module\<lparr>check_mode := check\<rparr>) \<lparr>provider = s, trace = []\<rparr>)"
proof (cases kind)
  case FunctionDomain
  show ?thesis unfolding FunctionDomain main.simps function_domain_main_def
    by (subst AnsibleModule_check_mode) (simp add: Let_def split: sum.splits)
next
  case IamApplication
  show ?thesis unfolding IamApplication main.simps iam_application_main_def
    by (subst AnsibleModule_check_mode) (simp add: Let_def split: sum.splits)
next
  case MnqCredential
  show ?thesis unfolding MnqCredential main.simps mnq_credential_main_def
    by (subst AnsibleModule_check_mode) (simp add: Let_def split: sum.splits)
next
  case VpcgwPatRule
  show ?thesis unfolding VpcgwPatRule main.simps vpcgw_pat_rule_main_def
    by (subst AnsibleModule_check_mode) (simp add: Let_def split: sum.splits)
qed

lemma main_run_cases:
  fixes s0 :: 's
  obtains
    (early) out where "changed_of out = None"
      and "\<And>(api :: 's api) check s.
             main kind env api args check s = (out, \<lparr>provider = s, trace = []\<rparr>)"
  | (present) m where "\<And>(api :: 's api) check s.
             main kind env api args check s =
             create_of kind api (m\<lparr>check_mode := check\<rparr>) \<lparr>provider = s, trace = []\<rparr>"
  | (absent) m where "\<And>(api :: 's api) check s.
             main kind env api args check s =
             delete_of kind api (m\<lparr>check_mode := check\<rparr>) \<lparr>provider = s, trace = []\<rparr>"
proof (cases "\<not> sdk_installed env \<and> (kind = IamApplication \<or> kind = VpcgwPatRule)")
  case True
  then have "main kind env api args check s =
        (Raised (ImportError ''scaleway''), \<lparr>provider = s, trace = []\<rparr>)"
    for api :: "'s api" and check s
    by (simp add: main_unfold)
  then show thesis using early[of "Raised (ImportError ''scaleway'')"] by simp
next
  case eager: False
  show thesis
  proof (cases "AnsibleModule (argument_spec_of kind env) (required_one_of_of kind) args False")
    case (Inl msg)
    have "main kind env api args check s = (FailJson msg, \<lparr>provider = s, trace = []\<rparr>)"
      for api :: "'s api" and check s
      using eager Inl by (simp add: main_unfold)
    then show thesis using early[of "FailJson msg"] by simp
  next
    case (Inr module)
    show thesis
    proof (cases "sdk_installed env")
      case False
      have "main kind env api args check s =
            (FailJson missing_required_lib, \<lparr>provider = s, trace = []\<rparr>)"
        for api :: "'s api" and check s
        using eager Inr False by (simp add: main_unfold)
      then show thesis using early[of "FailJson missing_required_lib"] by simp
    next
      case True
      have core: "main kind env api args check s =
            core env (create_of kind) (delete_of kind) api (module\<lparr>check_mode := check\<rparr>)
              \<lparr>provider = s, trace = []\<rparr>"
        for api :: "'s api" and check s
        using eager Inr True by (simp add: main_unfold)
      note E = early and P = present and A = absent
      show thesis
      proof (cases rule: core_run_cases[of env "create_of kind :: 's api \<Rightarrow> _" "delete_of kind" module])
        case (early out)
        then show ?thesis using core E[of out] by simp
      next
        case present
        then show ?thesis using core P[of "popped env module"] by simp
      next
        case absent
        then show ?thesis using core A[of "popped env module"] by simp
      qed
    qed
  qed
qed

section \<open>Runs of \<^verbatim>\<open>main\<close> in check mode\<close>

lemma dry_early: "changed_of out = None \<Longrightarrow> dry_run_agrees (out, \<lparr>provider = s, trace = []\<rparr>) (out, \<lparr>provider = s, trace = []\<rparr>)"
  by (simp add: dry_run_agrees_def)

text \<open>
  C2. With check mode on, no run of any of the four modules issues a create or a delete.
  The \<^verbatim>\<open>changed\<close> flag it reports tells what the same run without check mode does on
  the same provider: \<^verbatim>\<open>changed=True\<close> exactly where that run issues a create or a
  delete, \<^verbatim>\<open>changed=False\<close> where it issues none and reports \<^verbatim>\<open>changed=False\<close>
  itself. A run that reports no flag in check mode (it failed, raised, or found no
  credential of the name) ends in the very same way without check mode.
\<close>

theorem check_mode_makes_no_change_and_reports_it:
  assumes c: "main kind env api args True s = (oc, wc)"
    and r: "main kind env api args False s = (orr, wr)"
  shows "\<not> list_ex mutating (trace wc) \<and>
         (changed_of oc = Some True \<longrightarrow> list_ex mutating (trace wr)) \<and>
         (changed_of oc = Some False \<longrightarrow>
            \<not> list_ex mutating (trace wr) \<and> changed_of orr = Some False) \<and>
         (changed_of oc = None \<longrightarrow> orr = oc \<and> wr = wc)"
proof -
  have "dry_run_agrees (main kind env api args True s) (main kind env api args False s)"
  proof (cases rule: main_run_cases[where 's = 'a, of kind env args])
    case (early out)
    then show ?thesis by (simp add: dry_early)
  next
    case (present m)
    then show ?thesis by (simp add: create_of_dry)
  next
    case (absent m)
    then show ?thesis by (simp add: delete_of_dry)
  qed
  then show ?thesis unfolding c r dry_run_agrees_def by simp
qed

theorem check_mode_makes_no_change_and_reports_it_witness:
  "changed_of (fst pat_check_run) = Some True \<and>
   \<not> list_ex mutating (trace (snd pat_check_run)) \<and>
   list_ex mutating (trace (snd pat_real_run)) \<and>
   changed_of (fst iam_fetch_check_run) = Some False \<and>
   \<not> list_ex mutating (trace (snd iam_fetch_real_run)) \<and>
   changed_of (fst iam_fetch_real_run) = Some False"
proof -
  have c1: "changed_of (fst pat_check_run) = Some True" by code_simp
  have c2: "changed_of (fst iam_fetch_check_run) = Some False" by code_simp
  have p: "main VpcgwPatRule plain_env store_api pat_rule_args True [] =
             (fst pat_check_run, snd pat_check_run)"
          "main VpcgwPatRule plain_env store_api pat_rule_args False [] =
             (fst pat_real_run, snd pat_real_run)"
    by (simp_all add: pat_check_run_def pat_real_run_def)
  have i: "main IamApplication plain_env store_api iam_fetch_args True [app1] =
             (fst iam_fetch_check_run, snd iam_fetch_check_run)"
          "main IamApplication plain_env store_api iam_fetch_args False [app1] =
             (fst iam_fetch_real_run, snd iam_fetch_real_run)"
    by (simp_all add: iam_fetch_check_run_def iam_fetch_real_run_def)
  from check_mode_makes_no_change_and_reports_it[OF p]
       check_mode_makes_no_change_and_reports_it[OF i] c1 c2
  show ?thesis by simp
qed

section \<open>Failures of provider calls\<close>

text \<open>
  C5, as the claim states it, fails: a create that the provider rejects ends the run of
  scaleway\_iam\_application with the provider's exception, uncaught, and not with an
  outcome passed to \<^verbatim>\<open>exit_json\<close> or \<^verbatim>\<open>fail_json\<close>.
\<close>

theorem rejected_create_is_raised:
  "fst iam_rejected_run = Raised (ScalewayException 400)"
  by code_simp

text \<open>
  C5, amended. No module catches what a provider call raises, except the handler around
  \<^verbatim>\<open>wait_for_domain\<close> in the \<^verbatim>\<open>delete\<close> of scaleway\_function\_domain. So in every
  run, a provider call that fails is the last call of the run, and the run ends with that
  very exception raised; the one exception is a \<^verbatim>\<open>ScalewayException\<close> with status 404
  from the wait after a delete, after which the run exits with \<^verbatim>\<open>changed=True\<close>.
\<close>

theorem provider_failure_is_raised_unchanged:
  assumes run: "main kind env api args check s = (out, w')"
    and ev: "ev \<in> set (trace w')"
    and e: "ev_raised ev = Some e"
  shows "ev = last (trace w') \<and>
         (if ev_op ev = WaitFor \<and> swallowed e \<and> list_ex (\<lambda>d. ev_op d = Delete) (trace w')
          then changed_of out = Some True else out = Raised e)"
proof -
  have "failures_raised (main kind env api args check s)"
  proof (cases rule: main_run_cases[where 's = 'a, of kind env args])
    case (early out)
    then show ?thesis by (simp add: failures_raised_def)
  next
    case (present m)
    then show ?thesis by (simp add: create_of_fail)
  next
    case (absent m)
    then show ?thesis by (simp add: delete_of_fail)
  qed
  then have "failure_ok out (trace w') ev"
    using ev unfolding run failures_raised_def by (simp add: list_all_iff)
  then show ?thesis using e by (simp add: failure_ok_def)
qed

theorem provider_failure_is_raised_unchanged_witness:
  "rejected_create \<in> set (trace (snd iam_rejected_run)) \<and>
   ev_raised rejected_create = Some (ScalewayException 400) \<and>
   rejected_create = last (trace (snd iam_rejected_run)) \<and>
   fst iam_rejected_run = Raised (ScalewayException 400)"
proof -
  have tr: "trace (snd iam_rejected_run) = [rejected_create]" by code_simp
  have ev: "rejected_create \<in> set (trace (snd iam_rejected_run))" by (simp add: tr)
  have e: "ev_raised rejected_create = Some (ScalewayException 400)"
    by (simp add: rejected_create_def)
  have op: "ev_op rejected_create = Create" by (simp add: rejected_create_def)
  have run: "main IamApplication plain_env rejecting_api iam_present_args False [] =
               (fst iam_rejected_run, snd iam_rejected_run)"
    by (simp add: iam_rejected_run_def)
  from provider_failure_is_raised_unchanged[OF run ev e] ev e op
  show ?thesis by simp
qed

section \<open>Running \<^verbatim>\<open>present\<close> twice\<close>

text \<open>
  C1, as the claim states it, fails: scaleway\_iam\_application run twice with the same
  arguments, the second time on the provider the first run left, creates a resource each
  time, reports \<^verbatim>\<open>changed=True\<close> both times and returns two different resources.
\<close>

theorem present_twice_creates_twice:
  "changed_of (fst iam_first_run) = Some True \<and>
   changed_of (fst iam_second_run) = Some True \<and>
   data_of (fst iam_second_run) \<noteq> data_of (fst iam_first_run)"
  by code_simp

text \<open>
  C1, amended. The modules look an existing resource up by the \<^verbatim>\<open>id\<close> parameter only,
  so what a run reports depends on its arguments and not on what the provider holds: of
  two runs with the same arguments, the second on the provider the first one left, the
  second never reports \<^verbatim>\<open>changed=False\<close> after \<^verbatim>\<open>changed=True\<close> (nor the reverse),
  and when the first run issued a create, the second issues a create again.
\<close>

theorem present_twice_gives_the_same_verdict:
  assumes r1: "main kind env api args check s = (o1, w1)"
    and r2: "main kind env api args check (provider w1) = (o2, w2)"
  shows "(changed_of o1 = Some True \<longrightarrow> changed_of o2 \<noteq> Some False) \<and>
         (changed_of o1 = Some False \<longrightarrow> changed_of o2 \<noteq> Some True) \<and>
         (list_ex is_create (trace w1) \<longrightarrow> list_ex is_create (trace w2))"
proof (cases rule: main_run_cases[where 's = 'a, of kind env args])
  case (early out)
  then show ?thesis using r1 r2 by auto
next
  case (present m)
  have "create_verdict (m\<lparr>check_mode := check\<rparr>) (o1, w1)"
    and "create_verdict (m\<lparr>check_mode := check\<rparr>) (o2, w2)"
    using create_of_verdict[of "\<lparr>provider = s', trace = []\<rparr>" "m\<lparr>check_mode := check\<rparr>" kind api for s']
      r1 r2 present by (metis world.select_convs(2))+
  then show ?thesis by (auto simp: create_verdict_def)
next
  case (absent m)
  have "delete_verdict (o1, w1)" and "delete_verdict (o2, w2)"
    using delete_of_verdict[of "\<lparr>provider = s', trace = []\<rparr>" kind api "m\<lparr>check_mode := check\<rparr>" for s']
      r1 r2 absent by (metis world.select_convs(2))+
  then show ?thesis by (auto simp: delete_verdict_def)
qed

theorem present_twice_gives_the_same_verdict_witness:
  "changed_of (fst iam_first_run) = Some True \<and>
   list_ex is_create (trace (snd iam_first_run)) \<and>
   changed_of (fst iam_second_run) \<noteq> Some False \<and>
   list_ex is_create (trace (snd iam_second_run))"
proof -
  have c: "changed_of (fst iam_first_run) = Some True" by code_simp
  have t: "list_ex is_create (trace (snd iam_first_run))" by code_simp
  have r1: "main IamApplication plain_env store_api iam_present_args False [] =
              (fst iam_first_run, snd iam_first_run)"
    by (simp add: iam_first_run_def)
  have r2: "main IamApplication plain_env store_api iam_present_args False
              (provider (snd iam_first_run)) = (fst iam_second_run, snd iam_second_run)"
    by (simp add: iam_second_run_def)
  from present_twice_gives_the_same_verdict[OF r1 r2] c t
  show ?thesis by simp
qed

section \<open>Deleting by an id the provider does not know\<close>

text \<open>
  C3. The claim asks for \<^verbatim>\<open>changed=False\<close> and no error when the id of a delete is not
  found. In scaleway\_iam\_application, \<^verbatim>\<open>get_application\<close> is called outside any
  handler: with an id the provider answers with status 404, the run ends with that
  exception raised, and reports nothing.
\<close>

theorem absent_unknown_id_raises:
  "main IamApplication plain_env store_api iam_absent_args False [] =
     (Raised (ScalewayException 404),
      \<lparr>provider = [],
       trace = [\<lparr>ev_op = Get, ev_args = [(''application_id'', PStr ''app-1'')],
                 ev_raised = Some (ScalewayException 404)\<rparr>]\<rparr>)"
  by code_simp

section \<open>A name that matches several credentials\<close>

text \<open>
  C4. The one lookup by name is in the \<^verbatim>\<open>delete\<close> of scaleway\_mnq\_credential, taken
  when no id is read and a name is given. When \<^verbatim>\<open>list_credentials_all\<close> returns more
  than one credential, the run ends with \<^verbatim>\<open>exit_json\<close> and the message that more than
  one credential was found (no failure, no exception), and the list call is the only call
  made to the provider: nothing is created or deleted.
\<close>

theorem ambiguous_name_is_reported_without_mutation:
  assumes id: "fst (dict_pop (params module) ''id'' PNone) = PNone"
    and name: "map_of (params module) ''name'' = Some name" "name \<noteq> PNone"
    and region: "map_of (params module) ''region'' = Some region"
    and found: "api_list_all api [(''name'', name), (''region'', region)] (provider w) =
                  (Inr resources, s')"
    and many: "length resources > 1"
  shows "mnq_credential_delete api module w =
           (ExitJson None None (Some ''More than one credential found with name {name}''),
            \<lparr>provider = s',
             trace = trace w @ [\<lparr>ev_op = ListAll,
                                  ev_args = [(''name'', name), (''region'', region)],
                                  ev_raised = None\<rparr>]\<rparr>)"
  using assms
  by (auto simp: mnq_credential_delete_def dict_pop_def dict_index_def call_def raised_of_def
      delete_conv' split: option.splits)

theorem ambiguous_name_is_reported_without_mutation_witness:
  "fst (dict_pop (params mnq_by_name_module) ''id'' PNone) = PNone \<and>
   api_list_all store_api [(''name'', PStr ''queue''), (''region'', PNone)] [cred1, cred2] =
     (Inr [cred1, cred2], [cred1, cred2]) \<and>
   mnq_credential_delete store_api mnq_by_name_module \<lparr>provider = [cred1, cred2], trace = []\<rparr> =
     (ExitJson None None (Some ''More than one credential found with name {name}''),
      \<lparr>provider = [cred1, cred2],
       trace = [\<lparr>ev_op = ListAll, ev_args = [(''name'', PStr ''queue''), (''region'', PNone)],
                 ev_raised = None\<rparr>]\<rparr>)"
proof -
  have 1: "fst (dict_pop (params mnq_by_name_module) ''id'' PNone) = PNone" by code_simp
  have 2: "map_of (params mnq_by_name_module) ''name'' = Some (PStr ''queue'')"
    by (simp add: mnq_by_name_module_def)
  have 3: "PStr ''queue'' \<noteq> PNone" by simp
  have 4: "map_of (params mnq_by_name_module) ''region'' = Some PNone"
    by (simp add: mnq_by_name_module_def)
  have 5: "api_list_all store_api [(''name'', PStr ''queue''), (''region'', PNone)]
             (provider \<lparr>provider = [cred1, cred2], trace = []\<rparr>) =
           (Inr [cred1, cred2], [cred1, cred2])"
    by (simp add: store_api_def store_list_all_def cred1_def cred2_def)
  have 6: "length [cred1, cred2] > 1" by simp
  from ambiguous_name_is_reported_without_mutation[OF 1 2 3 4 5 6] 1 5
  show ?thesis by simp
qed

section \<open>The keyword arguments of create\<close>

text \<open>
  What each \<^verbatim>\<open>create\<close> passes when it reads no id, outside check mode: the parameters
  left after the pop, filtered of \<^verbatim>\<open>None\<close> in two modules and as they are in the other
  two.
\<close>

lemma create_passes_params:
  assumes "dict_pop (params module) ''id'' PNone = (PNone, kwargs)"
    and "\<not> check_mode module" "trace w = []"
  shows "creates_first kwargs (trace (snd (vpcgw_pat_rule_create api module w)))"
    and "creates_first kwargs (trace (snd (iam_application_create api module w)))"
    and "creates_first (not_none kwargs) (trace (snd (function_domain_create api module w)))"
    and "creates_first (not_none kwargs) (trace (snd (mnq_credential_create api module w)))"
  using assms
  by (simp_all add: creates_first_def vpcgw_pat_rule_create_def
      iam_application_create_def function_domain_create_def mnq_credential_create_def
      call_def raised_of_def dict_index_def split: prod.splits sum.splits)

lemma not_none_has_no_None: "(k, PNone) \<notin> set (not_none d)"
  by (simp add: not_none_def)

lemma not_none_keeps: "(k, v) \<in> set d \<Longrightarrow> v \<noteq> PNone \<Longrightarrow> (k, v) \<in> set (not_none d)"
  by (simp add: not_none_def)

text \<open>
  C6. The claim asks that no parameter left at \<^verbatim>\<open>None\<close> is passed to the create call.
  scaleway\_function\_domain and scaleway\_mnq\_credential filter them out;
  scaleway\_vpcgw\_pat\_rule passes \<^verbatim>\<open>**module.params\<close> as it is, so a run that gives no
  \<^verbatim>\<open>zone\<close> calls \<^verbatim>\<open>create_pat_rule\<close> with \<^verbatim>\<open>zone=None\<close>.
\<close>

theorem pat_rule_create_passes_none:
  "trace (snd (main VpcgwPatRule plain_env store_api pat_rule_args False [])) =
     [\<lparr>ev_op = Create,
       ev_args =
         [(''gateway_id'', PStr ''gw-1''), (''public_port'', PInt 80),
          (''private_ip'', PStr ''10.0.0.2''), (''private_port'', PInt 8080),
          (''protocol'', PStr ''tcp''), (''zone'', PNone)],
       ev_raised = None\<rparr>]"
  by code_simp

section \<open>Deleting a function domain\<close>

text \<open>
  What the \<^verbatim>\<open>delete\<close> of scaleway\_function\_domain does with a dictionary that holds
  the key \<^verbatim>\<open>id\<close>: it fetches, deletes, waits, takes status 404 from the wait as the
  end of the deletion and confirms with the id of the resource.
\<close>

lemma function_domain_delete_polls:
  assumes "map_of (params module) ''id'' = Some i" "i \<noteq> PNone"
    and "map_of (params module) ''region'' = Some region"
    and "\<not> check_mode module"
    and "api_get api [(''domain_id'', i), (''region'', region)] (provider w) = (Inr resource, s1)"
    and "api_delete api [(''domain_id'', PStr (rid resource)), (''region'', region)] s1 =
           (Inr (), s2)"
    and "api_wait_for api [(''domain_id'', PStr (rid resource)), (''region'', region)] s2 =
           (Inl (ScalewayException 404), s3)"
  shows "function_domain_delete api module w =
           (ExitJson (Some True) None
              (Some (''function's domain '' @ rid resource @ '' deleted'')),
            \<lparr>provider = s3,
             trace = trace w @
               [\<lparr>ev_op = Get, ev_args = [(''domain_id'', i), (''region'', region)],
                 ev_raised = None\<rparr>,
                \<lparr>ev_op = Delete,
                 ev_args = [(''domain_id'', PStr (rid resource)), (''region'', region)],
                 ev_raised = None\<rparr>,
                \<lparr>ev_op = WaitFor,
                 ev_args = [(''domain_id'', PStr (rid resource)), (''region'', region)],
                 ev_raised = Some (ScalewayException 404)\<rparr>]\<rparr>)"
  using assms by (simp add: function_domain_delete_def run_defs)

text \<open>
  C7. The claim asks that the delete of an existing waitable resource calls delete, polls
  until the resource is gone and exits with \<^verbatim>\<open>changed=True\<close>. The only module that
  polls after a delete is scaleway\_function\_domain, and its \<^verbatim>\<open>delete\<close> reads
  \<^verbatim>\<open>module.params["id"]\<close> first: with the domain \<^verbatim>\<open>d-1\<close> present at the provider and
  \<^verbatim>\<open>domain_id\<close> given, the run raises \<^verbatim>\<open>KeyError\<close>, calls nothing and leaves the
  domain where it is.
\<close>

theorem domain_delete_never_polls:
  "main FunctionDomain plain_env store_api domain_absent_region_args False [dom1] =
     (Raised (KeyError ''id''), \<lparr>provider = [dom1], trace = []\<rparr>)"
  by code_simp

text \<open>
  With the key \<^verbatim>\<open>id\<close> in the dictionary and \<^verbatim>\<open>None\<close> for it, every \<^verbatim>\<open>delete\<close> fails
  with \<^verbatim>\<open>id is required\<close> before any call (scaleway\_mnq\_credential when no name is
  given either, also when the key is missing, as it pops with a default).
\<close>

lemma delete_without_id_fails:
  assumes "map_of (params module) ''id'' = Some PNone"
  shows "vpcgw_pat_rule_delete api module w = (FailJson ''id is required'', w)"
    and "function_domain_delete api module w = (FailJson ''id is required'', w)"
    and "map_of (params module) ''name'' = Some name \<Longrightarrow>
         iam_application_delete api module w = (FailJson ''id is required'', w)"
    and "map_of (params module) ''name'' = Some PNone \<Longrightarrow>
         mnq_credential_delete api module w = (FailJson ''id is required'', w)"
  using assms
  by (simp_all add: vpcgw_pat_rule_delete_def function_domain_delete_def
      iam_application_delete_def mnq_credential_delete_def run_defs delete_conv')

lemma mnq_credential_delete_without_identity:
  assumes "map_of (params module) ''id'' = None"
    and "map_of (params module) ''name'' = Some PNone"
  shows "mnq_credential_delete api module w = (FailJson ''id is required'', w)"
  using assms by (simp add: mnq_credential_delete_def run_defs)

text \<open>
  C8. The claim asks that a delete with no identity given fails as a configuration error
  before any provider call. scaleway\_function\_domain run with \<^verbatim>\<open>state=absent\<close> and no
  \<^verbatim>\<open>domain_id\<close> makes no provider call, but it does not reach
  \<^verbatim>\<open>fail_json(msg="id is required")\<close>: it ends with an uncaught \<^verbatim>\<open>KeyError\<close>.
\<close>

theorem domain_delete_without_id_raises:
  "main FunctionDomain plain_env store_api domain_absent_no_id_args False [] =
     (Raised (KeyError ''id''), \<lparr>provider = [], trace = []\<rparr>)"
  by code_simp

section \<open>\<^verbatim>\<open>present\<close> in scaleway\_function\_domain and scaleway\_mnq\_credential\<close>

lemma fd_create_no_id:
  "map_of (params m) ''id'' = None \<Longrightarrow> \<not> check_mode m \<Longrightarrow> trace w = [] \<Longrightarrow>
   creates_first (not_none (params m)) (trace (snd (function_domain_create api m w))) \<and>
   \<not> list_ex (\<lambda>ev. ev_op ev = Get) (trace (snd (function_domain_create api m w)))"
  by (simp add: creates_first_def function_domain_create_def run_defs split: run_splits)

lemma mnq_create_no_id:
  "map_of (params m) ''id'' = None \<Longrightarrow> \<not> check_mode m \<Longrightarrow> trace w = [] \<Longrightarrow>
   creates_first (not_none (params m)) (trace (snd (mnq_credential_create api m w))) \<and>
   \<not> list_ex (\<lambda>ev. ev_op ev = Get) (trace (snd (mnq_credential_create api m w)))"
  by (simp add: creates_first_def mnq_credential_create_def run_defs split: run_splits)

lemma main_parsed:
  assumes "sdk_installed env"
    and "AnsibleModule (argument_spec_of kind env) (required_one_of_of kind) args False = Inr module"
  shows "main kind env api args False s =
           core env (create_of kind) (delete_of kind) api module \<lparr>provider = s, trace = []\<rparr>"
proof -
  have "module\<lparr>check_mode := False\<rparr> = module"
    using AnsibleModule_Inr(2)[OF assms(2)] by simp
  then show ?thesis using assms by (simp add: main_unfold)
qed

text \<open>
  C9. In scaleway\_function\_domain and scaleway\_mnq\_credential the branch of
  \<^verbatim>\<open>create\<close> that fetches an existing resource is never taken: \<^verbatim>\<open>create\<close> pops the
  key \<^verbatim>\<open>id\<close>, while the modules declare \<^verbatim>\<open>domain_id\<close> and \<^verbatim>\<open>credential_id\<close>. So
  every run with \<^verbatim>\<open>state=present\<close> outside check mode that gets as far as \<^verbatim>\<open>create\<close>
  calls the provider's create first, with the parameters that are not \<^verbatim>\<open>None\<close> (the
  declared identity among them), and never calls get, whatever the provider holds.
\<close>

theorem present_creates_without_fetching:
  assumes kind: "kind = FunctionDomain \<or> kind = MnqCredential"
    and sdk: "sdk_installed env"
    and parsed: "AnsibleModule (argument_spec_of kind env) (required_one_of_of kind) args False =
                   Inr module"
    and client: "scaleway_get_client_from_module env (params module) = None"
    and state: "map_of (params module) ''state'' = Some (PStr ''present'')"
    and shared: "''id'' \<notin> fst ` set (scaleway_argument_spec env)"
                "''id'' \<notin> fst ` set (scaleway_waitable_resource_argument_spec env)"
  shows "creates_first (not_none (params (popped env module)))
           (trace (snd (main kind env api args False s))) \<and>
         \<not> list_ex (\<lambda>ev. ev_op ev = Get) (trace (snd (main kind env api args False s)))"
proof -
  have run: "main kind env api args False s =
             create_of kind api (popped env module) \<lparr>provider = s, trace = []\<rparr>"
    by (simp add: main_parsed[OF sdk parsed] core_present[OF client state])
  have "map_of (params module) ''id'' = None"
    using kind parsed shared
    by (auto intro: function_domain_no_id mnq_credential_no_id)
  then have noid: "map_of (params (popped env module)) ''id'' = None"
    by (rule popped_no_id)
  have check: "\<not> check_mode (popped env module)"
    using AnsibleModule_Inr(2)[OF parsed] by (simp add: popped_check_mode)
  from kind show ?thesis
  proof
    assume "kind = FunctionDomain"
    then show ?thesis
      using fd_create_no_id[OF noid check, where w = "\<lparr>provider = s, trace = []\<rparr>" and api = api] run
      by simp
  next
    assume "kind = MnqCredential"
    then show ?thesis
      using mnq_create_no_id[OF noid check, where w = "\<lparr>provider = s, trace = []\<rparr>" and api = api] run
      by simp
  qed
qed

theorem present_creates_without_fetching_witness:
  "AnsibleModule (argument_spec_of FunctionDomain plain_env) (required_one_of_of FunctionDomain)
     domain_present_args False = Inr domain_present_module \<and>
   map_of (params domain_present_module) ''state'' = Some (PStr ''present'') \<and>
   creates_first
     [(''domain_id'', PStr ''d-1''), (''hostname'', PStr ''api.example.com''),
      (''function_id'', PStr ''f-1'')]
     (trace (snd (main FunctionDomain plain_env store_api domain_present_args False [dom1]))) \<and>
   \<not> list_ex (\<lambda>ev. ev_op ev = Get)
       (trace (snd (main FunctionDomain plain_env store_api domain_present_args False [dom1])))"
proof -
  have 1: "FunctionDomain = FunctionDomain \<or> FunctionDomain = MnqCredential" by simp
  have 2: "sdk_installed plain_env" by (simp add: plain_env_def)
  have 3: "AnsibleModule (argument_spec_of FunctionDomain plain_env)
             (required_one_of_of FunctionDomain) domain_present_args False =
           Inr domain_present_module" by code_simp
  have 4: "scaleway_get_client_from_module plain_env (params domain_present_module) = None"
    by (simp add: plain_env_def)
  have 5: "map_of (params domain_present_module) ''state'' = Some (PStr ''present'')"
    by (simp add: domain_present_module_def)
  have 6: "''id'' \<notin> fst ` set (scaleway_argument_spec plain_env)"
    by (simp add: plain_env_def)
  have 7: "''id'' \<notin> fst ` set (scaleway_waitable_resource_argument_spec plain_env)"
    by (simp add: plain_env_def)
  have kw: "not_none (params (popped plain_env domain_present_module)) =
      [(''domain_id'', PStr ''d-1''), (''hostname'', PStr ''api.example.com''),
       (''function_id'', PStr ''f-1'')]" by code_simp
  from present_creates_without_fetching[OF 1 2 3 4 5 6 7, of store_api "[dom1]"] 3 5
  show ?thesis unfolding kw by simp
qed

end
